theory Spec2Isabelle
  imports Main "HOL-Library.Sublist"
begin

section \<open>Data model\<close>

text \<open>
  Values that travel as JSON: the body a remote service answers with, and the text that is
  posted to it. Python does not enforce the \<^verbatim>\<open>str\<close> annotations of the callers, so
  the text handed to a dispatcher is whatever value the caller holds. JSON numbers are
  modelled as integers, and a string is the list of its characters, each a code point
  below 256.
\<close>

datatype json =
    JNull
  | JBool bool
  | JNum int
  | JStr string
  | JArr "json list"
  | JObj "(string \<times> json) list"

text \<open>A Python \<^verbatim>\<open>dict[str, Any]\<close> as the list of its items.\<close>

type_synonym pydict = "(string \<times> json) list"

definition dict_get :: "pydict \<Rightarrow> string \<Rightarrow> json \<Rightarrow> json" where
  "dict_get d k dflt = (case map_of d k of Some v \<Rightarrow> v | None \<Rightarrow> dflt)"

text \<open>
  \<^verbatim>\<open>models.ServiceResult\<close>. The field \<^verbatim>\<open>result\<close> defaults to the empty dict and
  \<^verbatim>\<open>error\<close> to \<^verbatim>\<open>None\<close>.
\<close>

record ServiceResult =
  service_name :: string
  service_type :: string
  success :: bool
  result :: pydict
  error :: "string option"

text \<open>
  One entry of the configuration file: a dict read with \<^verbatim>\<open>.get(key, default)\<close>, so
  every key may be absent. The values of \<^verbatim>\<open>name\<close>, \<^verbatim>\<open>api_url\<close> and
  \<^verbatim>\<open>api_key\<close> are strings and \<^verbatim>\<open>enabled\<close> is a boolean, as the configuration
  format has them; a value of another type under one of these keys is outside the model.
\<close>

record service_config =
  name :: "string option"
  api_url :: "string option"
  api_key :: "string option"
  enabled :: "bool option"

definition get_str :: "string option \<Rightarrow> string \<Rightarrow> string" where
  "get_str v dflt = (case v of Some s \<Rightarrow> s | None \<Rightarrow> dflt)"

record openai_section =
  openai_api_key :: "string option"
  openai_model :: "string option"

record app_config =
  services :: "(string \<times> service_config list) list option"
  openai :: "openai_section option"

section \<open>The outside world\<close>

text \<open>
  The two fixed system messages (each with its sampling temperature) that the program
  sends to the language model.
\<close>

datatype chat_prompt = RephrasePrompt | SummaryPrompt

text \<open>
  An outbound call: \<^verbatim>\<open>client.post(api_url, json={"text": text}, headers=Bearer api_key)\<close>
  under a client timeout, or \<^verbatim>\<open>client.chat.completions.create\<close> with an API key, a
  model, the system message and the user content.
\<close>

datatype call =
    HttpPost string json string nat
  | ChatCompletion string string chat_prompt string

text \<open>
  What the body of the \<^verbatim>\<open>try\<close> block around an HTTP call yields: the decoded
  response object, or one of the three exception classes the handlers tell apart
  (\<^verbatim>\<open>httpx.TimeoutException\<close>, \<^verbatim>\<open>httpx.HTTPStatusError\<close> with the status code,
  and any other \<^verbatim>\<open>Exception\<close> with its \<^verbatim>\<open>str(e)\<close>; a body that is not a JSON
  object ends there too).
\<close>

datatype http_outcome =
    Responded pydict
  | TimeoutException
  | HTTPStatusError nat
  | OtherException string

text \<open>
  What a chat completion yields: \<^verbatim>\<open>response.choices[0].message.content\<close>, which may
  be \<^verbatim>\<open>None\<close>, or an exception with its \<^verbatim>\<open>str(e)\<close>.
\<close>

datatype chat_outcome =
    Completion "string option"
  | ChatException string

text \<open>
  The environment of one run. The answer to a call may depend on every call made before
  it (the log) and on the call itself. \<^verbatim>\<open>load_config\<close> is the configuration loader of
  \<^verbatim>\<open>config.py\<close> (\<open>Inl\<close>: the message of its \<^verbatim>\<open>FileNotFoundError\<close>);
  \<^verbatim>\<open>repr_dict\<close> and \<^verbatim>\<open>format_head\<close> are Python's own formatting of a dict and of
  \<^verbatim>\<open>text[:500]\<close> for a value that is not a string (\<open>Inl\<close>: the message of the
  exception it raises).
\<close>

record world =
  http :: "call list \<Rightarrow> call \<Rightarrow> http_outcome"
  chat :: "call list \<Rightarrow> call \<Rightarrow> chat_outcome"
  getenv_OPENAI_API_KEY :: string
  load_config :: "string + app_config"
  repr_dict :: "pydict \<Rightarrow> string"
  format_head :: "json \<Rightarrow> string + string"

section \<open>Formatting helpers\<close>

abbreviation nl :: string where
  "nl \<equiv> [CHR 0x0A]"

definition digit_char :: "nat \<Rightarrow> char" where
  "digit_char d = char_of (48 + d)"

text \<open>Python's \<^verbatim>\<open>str\<close> of a non-negative integer.\<close>

function str_nat :: "nat \<Rightarrow> string" where
  "str_nat n = (if n < 10 then [digit_char n] else str_nat (n div 10) @ [digit_char (n mod 10)])"
  by pat_completeness auto
termination
  by (relation "measure (\<lambda>n. n)") auto

declare str_nat.simps [simp del]

text \<open>An f-string field holding \<^verbatim>\<open>str | None\<close>.\<close>

definition str_opt :: "string option \<Rightarrow> string" where
  "str_opt e = (case e of None \<Rightarrow> ''None'' | Some s \<Rightarrow> s)"

section \<open>Category dispatcher (\<^verbatim>\<open>services/plagiarism.py\<close>)\<close>

definition plagiarism_call :: "json \<Rightarrow> service_config \<Rightarrow> call" where
  "plagiarism_call text service_config =
     HttpPost (get_str (api_url service_config) []) text
              (get_str (api_key service_config) []) 30"

definition check_plagiarism ::
  "world \<Rightarrow> call list \<Rightarrow> json \<Rightarrow> service_config \<Rightarrow> ServiceResult \<times> call list" where
  "check_plagiarism w log text service_config =
     (let sname = get_str (name service_config) ''Unknown Service'';
          c = plagiarism_call text service_config
      in (case http w log c of
            Responded result_data \<Rightarrow>
              \<lparr>service_name = sname, service_type = ''plagiarism'', success = True,
               result = result_data, error = None\<rparr>
          | TimeoutException \<Rightarrow>
              \<lparr>service_name = sname, service_type = ''plagiarism'', success = False,
               result = [], error = Some ''Request timed out''\<rparr>
          | HTTPStatusError status_code \<Rightarrow>
              \<lparr>service_name = sname, service_type = ''plagiarism'', success = False,
               result = [], error = Some (''HTTP error: '' @ str_nat status_code)\<rparr>
          | OtherException msg \<Rightarrow>
              \<lparr>service_name = sname, service_type = ''plagiarism'', success = False,
               result = [], error = Some msg\<rparr>,
          log @ [c]))"

text \<open>
  The loop \<^verbatim>\<open>for service in services: results.append(await check_plagiarism(...))\<close>:
  one step takes the results so far and the log, and appends to both.
\<close>

definition plagiarism_step ::
  "world \<Rightarrow> json \<Rightarrow> service_config \<Rightarrow> ServiceResult list \<times> call list
     \<Rightarrow> ServiceResult list \<times> call list" where
  "plagiarism_step w text service st =
     (let (r, log') = check_plagiarism w (snd st) text service in (fst st @ [r], log'))"

definition check_all_plagiarism_services ::
  "world \<Rightarrow> call list \<Rightarrow> json \<Rightarrow> service_config list \<Rightarrow> ServiceResult list \<times> call list" where
  "check_all_plagiarism_services w log text svcs = fold (plagiarism_step w text) svcs ([], log)"

text \<open>
  Modelled from the spec: \<^verbatim>\<open>services/ai_detector.py\<close> is not among the sources.
  The spec describes one Category Dispatcher "used for both plagiarism and AI-detection
  categories", so the AI-detection dispatcher is the plagiarism dispatcher with the
  service type \<^verbatim>\<open>ai_detection\<close>.
\<close>

definition detect_ai ::
  "world \<Rightarrow> call list \<Rightarrow> json \<Rightarrow> service_config \<Rightarrow> ServiceResult \<times> call list" where
  "detect_ai w log text service_config =
     (let (r, log') = check_plagiarism w log text service_config
      in (r\<lparr>service_type := ''ai_detection''\<rparr>, log'))"

definition detect_all_ai_services ::
  "world \<Rightarrow> call list \<Rightarrow> json \<Rightarrow> service_config list \<Rightarrow> ServiceResult list \<times> call list" where
  "detect_all_ai_services w log text svcs =
     fold (\<lambda>service st. let (r, log') = detect_ai w (snd st) text service
                         in (fst st @ [r], log')) svcs ([], log)"

section \<open>Ordered fallback rephraser (\<^verbatim>\<open>services/rephraser.py\<close>)\<close>

definition rephrase_text_with_openai ::
  "world \<Rightarrow> call list \<Rightarrow> string \<Rightarrow> string \<Rightarrow> (json \<times> ServiceResult) \<times> call list" where
  "rephrase_text_with_openai w log text key =
     (let c = ChatCompletion key ''gpt-4'' RephrasePrompt text
      in (case chat w log c of
            Completion content \<Rightarrow>
              (let rephrased = (case content of
                                  Some s \<Rightarrow> if s \<noteq> [] then s else []
                                | None \<Rightarrow> [])
               in (JStr rephrased,
                   \<lparr>service_name = ''OpenAI Rephraser'', service_type = ''rephrasing'',
                    success = True, result = [(''rephrased_text'', JStr rephrased)],
                    error = None\<rparr>))
          | ChatException msg \<Rightarrow>
              (JStr [],
               \<lparr>service_name = ''OpenAI Rephraser'', service_type = ''rephrasing'',
                success = False, result = [], error = Some msg\<rparr>),
          log @ [c]))"

text \<open>
  The value returned first is \<^verbatim>\<open>result_data.get("rephrased_text",
  result_data.get("text", ""))\<close>: whatever JSON value the payload holds under the key.
\<close>

definition rephrase_text_with_service ::
  "world \<Rightarrow> call list \<Rightarrow> string \<Rightarrow> service_config \<Rightarrow> (json \<times> ServiceResult) \<times> call list" where
  "rephrase_text_with_service w log text service_config =
     (let sname = get_str (name service_config) ''Unknown Service'';
          url = get_str (api_url service_config) [];
          key = get_str (api_key service_config) []
      in if url = ''openai''
         then (let openai_key = (if key \<noteq> [] then key else getenv_OPENAI_API_KEY w)
               in rephrase_text_with_openai w log text openai_key)
         else (let c = HttpPost url (JStr text) key 30
               in (case http w log c of
                     Responded result_data \<Rightarrow>
                       (dict_get result_data ''rephrased_text''
                          (dict_get result_data ''text'' (JStr [])),
                        \<lparr>service_name = sname, service_type = ''rephrasing'', success = True,
                         result = result_data, error = None\<rparr>)
                   | TimeoutException \<Rightarrow>
                       (JStr [],
                        \<lparr>service_name = sname, service_type = ''rephrasing'', success = False,
                         result = [], error = Some ''Request timed out''\<rparr>)
                   | HTTPStatusError status_code \<Rightarrow>
                       (JStr [],
                        \<lparr>service_name = sname, service_type = ''rephrasing'', success = False,
                         result = [], error = Some (''HTTP error: '' @ str_nat status_code)\<rparr>)
                   | OtherException msg \<Rightarrow>
                       (JStr [],
                        \<lparr>service_name = sname, service_type = ''rephrasing'', success = False,
                         result = [], error = Some msg\<rparr>),
                   log @ [c])))"

text \<open>
  The loop of \<^verbatim>\<open>rephrase_with_first_enabled\<close>, with its variable
  \<^verbatim>\<open>last_result\<close>, and the two returns that follow the loop.
\<close>

fun rephrase_loop ::
  "world \<Rightarrow> call list \<Rightarrow> string \<Rightarrow> service_config list \<Rightarrow> ServiceResult option
     \<Rightarrow> (json \<times> ServiceResult) \<times> call list" where
  "rephrase_loop w log text [] last_result =
     (case last_result of
        Some r \<Rightarrow> ((JStr [], r), log)
      | None \<Rightarrow>
          ((JStr [],
            \<lparr>service_name = ''None'', service_type = ''rephrasing'', success = False,
             result = [], error = Some ''No rephrasing services available''\<rparr>), log))"
| "rephrase_loop w log text (service # rest) last_result =
     (let ((rephrased, res), log') = rephrase_text_with_service w log text service
      in if success res then ((rephrased, res), log')
         else rephrase_loop w log' text rest (Some res))"

definition rephrase_with_first_enabled ::
  "world \<Rightarrow> call list \<Rightarrow> string \<Rightarrow> service_config list \<Rightarrow> (json \<times> ServiceResult) \<times> call list" where
  "rephrase_with_first_enabled w log text svcs =
     (if svcs = []
      then ((JStr [],
             \<lparr>service_name = ''None'', service_type = ''rephrasing'', success = False,
              result = [], error = Some ''No rephrasing services enabled''\<rparr>), log)
      else rephrase_loop w log text svcs None)"

text \<open>The one call that an attempt on a rephrasing service makes.\<close>

definition rephrase_call :: "world \<Rightarrow> string \<Rightarrow> service_config \<Rightarrow> call" where
  "rephrase_call w text service_config =
     (let url = get_str (api_url service_config) [];
          key = get_str (api_key service_config) []
      in if url = ''openai''
         then ChatCompletion (if key \<noteq> [] then key else getenv_OPENAI_API_KEY w)
                ''gpt-4'' RephrasePrompt text
         else HttpPost url (JStr text) key 30)"

section \<open>Summary generator (\<^verbatim>\<open>services/summarizer.py\<close>)\<close>

text \<open>
  The private helpers \<^verbatim>\<open>_generate_fallback_summary\<close> and
  \<^verbatim>\<open>_prepare_results_context\<close> keep their names without the leading underscore.
  Each builds its list \<^verbatim>\<open>parts\<close> and joins it.
\<close>

definition generate_fallback_summary ::
  "ServiceResult list \<Rightarrow> ServiceResult list \<Rightarrow> string option \<Rightarrow> string" where
  "generate_fallback_summary plagiarism_results ai_detection_results err =
     concat
      ([''## Analysis Summary'' @ nl @ nl] @
       (case err of
          Some e \<Rightarrow>
            if e \<noteq> []
            then [''*Note: AI summary generation encountered an issue: '' @ e @ ''*'' @ nl @ nl]
            else []
        | None \<Rightarrow> []) @
       [''### Plagiarism Check'' @ nl] @
       (if plagiarism_results \<noteq> []
        then map (\<lambda>r. ''- **'' @ service_name r @ ''**: Check completed'' @ nl)
               (filter success plagiarism_results) @
             map (\<lambda>r. ''- **'' @ service_name r @ ''**: '' @ str_opt (error r) @ nl)
               (filter (\<lambda>r. \<not> success r) plagiarism_results)
        else [''No plagiarism checkers were enabled.'' @ nl]) @
       [nl @ ''### AI Content Detection'' @ nl] @
       (if ai_detection_results \<noteq> []
        then map (\<lambda>r. ''- **'' @ service_name r @ ''**: Detection completed'' @ nl)
               (filter success ai_detection_results) @
             map (\<lambda>r. ''- **'' @ service_name r @ ''**: '' @ str_opt (error r) @ nl)
               (filter (\<lambda>r. \<not> success r) ai_detection_results)
        else [''No AI detectors were enabled.'' @ nl]) @
       [nl @ ''### Recommendations'' @ nl,
        ''Review the detailed results from each service to understand the analysis findings.''
          @ nl])"

definition prepare_results_context ::
  "world \<Rightarrow> json \<Rightarrow> ServiceResult list \<Rightarrow> ServiceResult list \<Rightarrow> string + string" where
  "prepare_results_context w text plagiarism_results ai_detection_results =
     (case (case text of JStr s \<Rightarrow> Inr (take 500 s) | _ \<Rightarrow> format_head w text) of
        Inl msg \<Rightarrow> Inl msg
      | Inr head \<Rightarrow>
          Inr (concat
            ([''Text being analyzed (first 500 chars): '' @ head @ ''...'' @ nl @ nl] @
             [''PLAGIARISM CHECK RESULTS:'' @ nl] @
             (if plagiarism_results \<noteq> []
              then map (\<lambda>r. if success r
                        then ''- '' @ service_name r @ '': '' @ repr_dict w (result r) @ nl
                        else ''- '' @ service_name r @ '': Error - '' @ str_opt (error r) @ nl)
                     plagiarism_results
              else [''- No plagiarism checkers were enabled or available.'' @ nl]) @
             [nl @ ''AI DETECTION RESULTS:'' @ nl] @
             (if ai_detection_results \<noteq> []
              then map (\<lambda>r. if success r
                        then ''- '' @ service_name r @ '': '' @ repr_dict w (result r) @ nl
                        else ''- '' @ service_name r @ '': Error - '' @ str_opt (error r) @ nl)
                     ai_detection_results
              else [''- No AI detectors were enabled or available.'' @ nl]))))"

text \<open>
  \<^verbatim>\<open>generate_summary\<close>. Everything after the test of the key runs inside the
  \<^verbatim>\<open>try\<close>; an exception there (from preparing the context or from the chat call)
  reaches the handler with its message. The answer's content, when it is \<^verbatim>\<open>None\<close> or
  empty, is replaced by the fallback summary called without an error.
\<close>

definition generate_summary ::
  "world \<Rightarrow> call list \<Rightarrow> json \<Rightarrow> ServiceResult list \<Rightarrow> ServiceResult list \<Rightarrow> string \<Rightarrow> string
     \<Rightarrow> string \<times> call list" where
  "generate_summary w log text plagiarism_results ai_detection_results key model =
     (if key = []
      then (generate_fallback_summary plagiarism_results ai_detection_results None, log)
      else (case prepare_results_context w text plagiarism_results ai_detection_results of
              Inl msg \<Rightarrow>
                (generate_fallback_summary plagiarism_results ai_detection_results (Some msg),
                 log)
            | Inr context \<Rightarrow>
                (let c = ChatCompletion key model SummaryPrompt context
                 in (case chat w log c of
                       Completion content \<Rightarrow>
                         (case content of
                            Some s \<Rightarrow>
                              if s \<noteq> [] then s
                              else generate_fallback_summary plagiarism_results
                                     ai_detection_results None
                          | None \<Rightarrow>
                              generate_fallback_summary plagiarism_results
                                ai_detection_results None)
                     | ChatException msg \<Rightarrow>
                         generate_fallback_summary plagiarism_results ai_detection_results
                           (Some msg),
                     log @ [c]))))"

section \<open>Configuration access (\<^verbatim>\<open>config.py\<close>)\<close>

definition get_enabled_services :: "app_config \<Rightarrow> string \<Rightarrow> service_config list" where
  "get_enabled_services config stype =
     (let svcs = (case services config of
                    None \<Rightarrow> []
                  | Some m \<Rightarrow> (case map_of m stype of None \<Rightarrow> [] | Some l \<Rightarrow> l))
      in filter (\<lambda>s. case enabled s of Some b \<Rightarrow> b | None \<Rightarrow> False) svcs)"

text \<open>The pair of \<^verbatim>\<open>api_key\<close> and \<^verbatim>\<open>model\<close>.\<close>

definition get_openai_config :: "world \<Rightarrow> app_config \<Rightarrow> string \<times> string" where
  "get_openai_config w config =
     (case openai config of
        None \<Rightarrow> (getenv_OPENAI_API_KEY w, ''gpt-4'')
      | Some oc \<Rightarrow> (get_str (openai_api_key oc) (getenv_OPENAI_API_KEY w),
                    get_str (openai_model oc) ''gpt-4''))"

section \<open>The rephrase flow (\<^verbatim>\<open>main.py\<close>)\<close>

text \<open>
  The characters that \<^verbatim>\<open>str.strip()\<close> removes. A \<^typ>\<open>char\<close> stands for a code point
  below 256; among these Python's \<^verbatim>\<open>str.isspace\<close> holds of 9 to 13, of 28 to 32, of
  133 (U+0085) and of 160 (U+00A0).
\<close>

definition py_isspace :: "char \<Rightarrow> bool" where
  "py_isspace c =
     (let n = of_char c :: nat
      in (9 \<le> n \<and> n \<le> 13) \<or> (28 \<le> n \<and> n \<le> 32) \<or> n = 133 \<or> n = 160)"

definition strip :: "string \<Rightarrow> string" where
  "strip s = rev (dropWhile py_isspace (rev (dropWhile py_isspace s)))"

text \<open>Python's truth value of a JSON value, negated.\<close>

definition py_not :: "json \<Rightarrow> bool" where
  "py_not v = (case v of
                 JNull \<Rightarrow> True
               | JBool b \<Rightarrow> \<not> b
               | JNum n \<Rightarrow> n = 0
               | JStr s \<Rightarrow> s = []
               | JArr xs \<Rightarrow> xs = []
               | JObj kvs \<Rightarrow> kvs = [])"

text \<open>
  What the endpoint raises: an \<^verbatim>\<open>HTTPException\<close> with status code and detail, or
  the validation error of \<^verbatim>\<open>RephraseResponse\<close> when the rephrased text is not a
  string.
\<close>

datatype flow_error =
    HTTPException nat string
  | ResponseValidationError

record RephraseResponse =
  summary :: string
  rephrased_text :: string
  plagiarism_results :: "ServiceResult list"
  ai_detection_results :: "ServiceResult list"
  original_text :: string

definition rephrase_text ::
  "world \<Rightarrow> call list \<Rightarrow> string \<Rightarrow> (flow_error + RephraseResponse) \<times> call list" where
  "rephrase_text w log text =
     (if text = [] \<or> strip text = []
      then (Inl (HTTPException 400 ''No text provided for rephrasing.''), log)
      else (case load_config w of
              Inl msg \<Rightarrow> (Inl (HTTPException 500 msg), log)
            | Inr config \<Rightarrow>
                (let rephrasing_services = get_enabled_services config ''rephrasing'';
                     plagiarism_services = get_enabled_services config ''plagiarism_checkers'';
                     ai_detector_services = get_enabled_services config ''ai_detectors'';
                     (key, model) = get_openai_config w config;
                     ((rephrased, rephrase_result), log1) =
                        rephrase_with_first_enabled w log text rephrasing_services
                 in if \<not> success rephrase_result
                    then (Inl (HTTPException 500
                                (''Rephrasing failed: '' @ str_opt (error rephrase_result))),
                          log1)
                    else if py_not rephrased
                    then (Inl (HTTPException 500 ''Rephrasing returned empty text''), log1)
                    else (let (pr, log2) =
                                 check_all_plagiarism_services w log1 rephrased
                                   plagiarism_services;
                              (ar, log3) =
                                 detect_all_ai_services w log2 rephrased ai_detector_services;
                              (sm, log4) = generate_summary w log3 rephrased pr ar key model
                          in (case rephrased of
                                JStr s \<Rightarrow>
                                  Inr \<lparr>summary = sm, rephrased_text = s,
                                       plagiarism_results = pr, ai_detection_results = ar,
                                       original_text = text\<rparr>
                              | _ \<Rightarrow> Inl ResponseValidationError,
                              log4)))))"

section \<open>Notions used in the statements\<close>

text \<open>
  The attempt on the service at position \<open>j\<close> in a run of the fallback loop that has
  attempted every service before it: each attempt makes one call, so the log at that
  moment is the starting log followed by the calls of the services before \<open>j\<close>.
\<close>

definition attempt_at ::
  "world \<Rightarrow> call list \<Rightarrow> string \<Rightarrow> service_config list \<Rightarrow> nat
     \<Rightarrow> (json \<times> ServiceResult) \<times> call list" where
  "attempt_at w log text svcs j =
     rephrase_text_with_service w (log @ map (rephrase_call w text) (take j svcs)) text
       (svcs ! j)"

text \<open>
  The invariant of the spec's data model, in its words: \<^verbatim>\<open>success=true\<close> implies
  \<^verbatim>\<open>error\<close> is empty; \<^verbatim>\<open>success=false\<close> implies the payload is empty and
  \<^verbatim>\<open>error\<close> is non-empty. An error is empty when it is \<^verbatim>\<open>None\<close> or the empty
  string.
\<close>

definition error_is_empty :: "string option \<Rightarrow> bool" where
  "error_is_empty e = (case e of None \<Rightarrow> True | Some m \<Rightarrow> m = [])"

definition result_invariant :: "ServiceResult \<Rightarrow> bool" where
  "result_invariant r =
     ((success r \<longrightarrow> error_is_empty (error r)) \<and>
      (\<not> success r \<longrightarrow> result r = [] \<and> \<not> error_is_empty (error r)))"

text \<open>
  The shape every constructor call of the sources gives: no error on success; on failure
  the default empty payload and an error string, which may be the empty string.
\<close>

definition result_shape :: "ServiceResult \<Rightarrow> bool" where
  "result_shape r =
     ((success r \<longrightarrow> error r = None) \<and>
      (\<not> success r \<longrightarrow> result r = [] \<and> error r \<noteq> None))"

text \<open>A world in which no exception that reaches a handler has an empty message.\<close>

definition messages_nonempty :: "world \<Rightarrow> bool" where
  "messages_nonempty w =
     (\<forall>log c. http w log c \<noteq> OtherException [] \<and> chat w log c \<noteq> ChatException [])"

section \<open>Example inputs\<close>

text \<open>
  Four configured services, told apart by their URL, and a world in which service A times
  out, B answers with the key \<^verbatim>\<open>rephrased_text\<close>, C answers with the key
  \<^verbatim>\<open>text\<close> only, D answers with neither key, and every other URL is rejected with
  status 503. The language model answers every chat call.
\<close>

definition svc :: "string \<Rightarrow> string \<Rightarrow> service_config" where
  "svc n url = \<lparr>name = Some n, api_url = Some url, api_key = Some ''secret'', enabled = Some True\<rparr>"

definition demo_http :: "call list \<Rightarrow> call \<Rightarrow> http_outcome" where
  "demo_http log c =
     (case c of
        HttpPost url body key t \<Rightarrow>
          if url = ''a'' then TimeoutException
          else if url = ''b'' then Responded [(''rephrased_text'', JStr ''Hi there''),
                                              (''text'', JStr ''ignored'')]
          else if url = ''c'' then Responded [(''text'', JStr ''Good day'')]
          else if url = ''d'' then Responded [(''score'', JNum 7)]
          else HTTPStatusError 503
      | ChatCompletion key model prompt content \<Rightarrow> OtherException ''not an HTTP call'')"

definition demo_config :: app_config where
  "demo_config =
     \<lparr>services = Some [(''plagiarism_checkers'', [svc ''P'' ''b'']),
                       (''ai_detectors'', [svc ''Q'' ''c'']),
                       (''rephrasing'', [(svc ''R'' ''b'')\<lparr>enabled := Some False\<rparr>])],
      openai = None\<rparr>"

definition demo_world :: world where
  "demo_world =
     \<lparr>http = demo_http,
      chat = (\<lambda>log c. Completion (Some ''Rewritten'')),
      getenv_OPENAI_API_KEY = ''sk-env'',
      load_config = Inr demo_config,
      repr_dict = (\<lambda>d. ''{}''),
      format_head = (\<lambda>v. Inl ''object is not subscriptable'')\<rparr>"

text \<open>
  A world in which every call raises an exception whose message is empty, and a world in
  which the language model answers with no content.
\<close>

definition silent_world :: world where
  "silent_world =
     \<lparr>http = (\<lambda>log c. OtherException []),
      chat = (\<lambda>log c. ChatException []),
      getenv_OPENAI_API_KEY = [],
      load_config = Inr demo_config,
      repr_dict = (\<lambda>d. ''{}''),
      format_head = (\<lambda>v. Inl ''object is not subscriptable'')\<rparr>"

definition blank_answer_world :: world where
  "blank_answer_world =
     \<lparr>http = demo_http,
      chat = (\<lambda>log c. Completion None),
      getenv_OPENAI_API_KEY = [],
      load_config = Inr demo_config,
      repr_dict = (\<lambda>d. ''{}''),
      format_head = (\<lambda>v. Inl ''object is not subscriptable'')\<rparr>"

text \<open>The demonstration world with a language model that refuses every call.\<close>

definition polite_world :: world where
  "polite_world = demo_world\<lparr>chat := (\<lambda>log c. ChatException ''Connection error.'')\<rparr>"

text \<open>
  The demonstration world with one enabled rephrasing service, which times out, and with
  one that answers.
\<close>

definition timeout_rephrase_world :: world where
  "timeout_rephrase_world =
     demo_world\<lparr>load_config :=
       Inr (demo_config\<lparr>services := Some [(''plagiarism_checkers'', [svc ''P'' ''b'']),
                                             (''ai_detectors'', [svc ''Q'' ''c'']),
                                             (''rephrasing'', [svc ''A'' ''a''])]\<rparr>)\<rparr>"

definition working_rephrase_world :: world where
  "working_rephrase_world =
     demo_world\<lparr>load_config :=
       Inr (demo_config\<lparr>services := Some [(''plagiarism_checkers'', [svc ''P'' ''b'']),
                                             (''ai_detectors'', [svc ''Q'' ''c'']),
                                             (''rephrasing'', [svc ''B'' ''b''])]\<rparr>)\<rparr>"

section \<open>Properties of the dispatcher\<close>

lemma check_plagiarism_name:
  "service_name (fst (check_plagiarism w log text s)) = get_str (name s) ''Unknown Service''"
  by (simp add: check_plagiarism_def Let_def split: http_outcome.split)

lemma check_plagiarism_log:
  "snd (check_plagiarism w log text s) = log @ [plagiarism_call text s]"
  by (simp add: check_plagiarism_def Let_def)

lemma plagiarism_fold_names:
  "map service_name (fst (fold (plagiarism_step w text) svcs (acc, log))) =
     map service_name acc @ map (\<lambda>s. get_str (name s) ''Unknown Service'') svcs"
proof (induction svcs arbitrary: acc log)
  case Nil
  show ?case by simp
next
  case (Cons s svcs)
  obtain r log' where step: "check_plagiarism w log text s = (r, log')"
    by (cases "check_plagiarism w log text s")
  have "service_name r = get_str (name s) ''Unknown Service''"
    using check_plagiarism_name [of w log "text" s] step by simp
  then show ?case
    using Cons.IH [of "acc @ [r]" log'] step by (simp add: plagiarism_step_def)
qed

text \<open>
  C1. A category dispatch returns one ServiceResult per configured service, in the
  configuration's order; the i-th result carries the name of the i-th service (the
  configured \<^verbatim>\<open>name\<close>, read with the default \<^verbatim>\<open>"Unknown Service"\<close>), whatever the
  remote calls answer. An empty service list gives the empty list, and no call.
\<close>

theorem dispatch_one_result_per_service:
  "length (fst (check_all_plagiarism_services w log text svcs)) = length svcs
   \<and> map service_name (fst (check_all_plagiarism_services w log text svcs)) =
       map (\<lambda>s. get_str (name s) ''Unknown Service'') svcs
   \<and> check_all_plagiarism_services w log text [] = ([], log)"
proof -
  have names: "map service_name (fst (check_all_plagiarism_services w log text svcs)) =
      map (\<lambda>s. get_str (name s) ''Unknown Service'') svcs"
    using plagiarism_fold_names [of w "text" svcs "[]" log]
    by (simp add: check_all_plagiarism_services_def)
  have "length (map service_name (fst (check_all_plagiarism_services w log text svcs))) =
      length svcs"
    by (simp only: names length_map)
  then have len: "length (fst (check_all_plagiarism_services w log text svcs)) = length svcs"
    by simp
  have "check_all_plagiarism_services w log text [] = ([], log)"
    by (simp add: check_all_plagiarism_services_def)
  with names len show ?thesis by simp
qed

theorem dispatch_one_result_per_service_witness:
  "length (fst (check_all_plagiarism_services demo_world [] (JStr ''Hello world'')
             [svc ''A'' ''a'', svc ''B'' ''b''])) = 2
   \<and> map service_name (fst (check_all_plagiarism_services demo_world [] (JStr ''Hello world'')
             [svc ''A'' ''a'', svc ''B'' ''b''])) = [''A'', ''B'']
   \<and> map success (fst (check_all_plagiarism_services demo_world [] (JStr ''Hello world'')
             [svc ''A'' ''a'', svc ''B'' ''b''])) = [False, True]"
proof -
  have run: "map success (fst (check_all_plagiarism_services demo_world [] (JStr ''Hello world'')
             [svc ''A'' ''a'', svc ''B'' ''b''])) = [False, True]"
    by (simp add: check_all_plagiarism_services_def plagiarism_step_def check_plagiarism_def
        plagiarism_call_def demo_world_def demo_http_def svc_def get_str_def)
  show ?thesis
    using dispatch_one_result_per_service
      [of demo_world "[]" "JStr ''Hello world''" "[svc ''A'' ''a'', svc ''B'' ''b'']"] run
    by (simp add: svc_def get_str_def)
qed


section \<open>Properties of the ordered fallback rephraser\<close>

lemma rephrase_service_log:
  "snd (rephrase_text_with_service w log text s) = log @ [rephrase_call w text s]"
  by (simp add: rephrase_text_with_service_def rephrase_text_with_openai_def rephrase_call_def
      Let_def)

lemma attempt_at_0:
  "attempt_at w log text (s # svcs) 0 = rephrase_text_with_service w log text s"
  by (simp add: attempt_at_def)

lemma attempt_at_Suc:
  "attempt_at w log text (s # svcs) (Suc j) =
     attempt_at w (log @ [rephrase_call w text s]) text svcs j"
  by (simp add: attempt_at_def)

text \<open>
  The loop, when the attempt at position \<open>k\<close> is the first to succeed: induction on the
  service list, with the log and \<^verbatim>\<open>last_result\<close> generalised.
\<close>

lemma loop_first_success:
  "k < length svcs \<Longrightarrow>
   \<forall>j<k. \<not> success (snd (fst (attempt_at w log text svcs j))) \<Longrightarrow>
   success (snd (fst (attempt_at w log text svcs k))) \<Longrightarrow>
   rephrase_loop w log text svcs lr = attempt_at w log text svcs k"
proof (induction svcs arbitrary: k log lr)
  case Nil
  then show ?case by simp
next
  case (Cons s svcs)
  obtain rephrased res log' where step:
    "rephrase_text_with_service w log text s = ((rephrased, res), log')"
    by (metis prod.exhaust)
  have log': "log' = log @ [rephrase_call w text s]"
    using rephrase_service_log [of w log "text" s] step by simp
  show ?case
  proof (cases k)
    case 0
    with Cons.prems(3) step show ?thesis by (simp add: attempt_at_0)
  next
    case (Suc k')
    have head_fails: "\<not> success res"
      using Cons.prems(2) Suc step by (auto simp: attempt_at_0 dest: spec [of _ 0])
    have tail_fail: "\<forall>j<k'. \<not> success (snd (fst (attempt_at w log' text svcs j)))"
      using Cons.prems(2) Suc log' by (auto simp: attempt_at_Suc dest: spec [of _ "Suc j" for j])
    have tail_ok: "success (snd (fst (attempt_at w log' text svcs k')))"
      using Cons.prems(3) Suc log' by (simp add: attempt_at_Suc)
    have "k' < length svcs" using Cons.prems(1) Suc by simp
    from Cons.IH [OF this tail_fail tail_ok, of "Some res"]
    show ?thesis using step head_fails Suc log' by (simp add: attempt_at_Suc)
  qed
qed

lemma attempt_at_log:
  "j < length svcs \<Longrightarrow>
   snd (attempt_at w log text svcs j) = log @ map (rephrase_call w text) (take (Suc j) svcs)"
  by (simp add: attempt_at_def rephrase_service_log take_Suc_conv_app_nth)

text \<open>The loop, when every attempt fails.\<close>

lemma loop_all_fail:
  "\<forall>j<length svcs. \<not> success (snd (fst (attempt_at w log text svcs j))) \<Longrightarrow>
   rephrase_loop w log text svcs (Some r0) =
     ((JStr [], if svcs = [] then r0
                else snd (fst (attempt_at w log text svcs (length svcs - 1)))),
      log @ map (rephrase_call w text) svcs)"
proof (induction svcs arbitrary: log r0)
  case Nil
  show ?case by simp
next
  case (Cons s svcs)
  obtain rephrased res log' where step:
    "rephrase_text_with_service w log text s = ((rephrased, res), log')"
    by (metis prod.exhaust)
  have log': "log' = log @ [rephrase_call w text s]"
    using rephrase_service_log [of w log "text" s] step by simp
  have head_fails: "\<not> success res"
    using Cons.prems step by (auto simp: attempt_at_0 dest: spec [of _ 0])
  have tail_fail: "\<forall>j<length svcs. \<not> success (snd (fst (attempt_at w log' text svcs j)))"
    using Cons.prems log' by (auto simp: attempt_at_Suc dest: spec [of _ "Suc j" for j])
  show ?case
  proof (cases "svcs = []")
    case True
    then show ?thesis using step head_fails log' by (simp add: attempt_at_0)
  next
    case False
    then obtain n where n: "length svcs = Suc n" by (cases svcs) auto
    from Cons.IH [OF tail_fail, of res] False n step head_fails log'
    show ?thesis by (simp add: attempt_at_Suc)
  qed
qed

text \<open>Every call the rephraser makes is the call of one of its services, in order.\<close>

lemma loop_log:
  "\<exists>n\<le>length svcs. snd (rephrase_loop w log text svcs lr) =
     log @ map (rephrase_call w text) (take n svcs)"
proof (induction svcs arbitrary: log lr)
  case Nil
  show ?case by (simp split: option.split)
next
  case (Cons s svcs)
  obtain rephrased res log' where step:
    "rephrase_text_with_service w log text s = ((rephrased, res), log')"
    by (metis prod.exhaust)
  have log': "log' = log @ [rephrase_call w text s]"
    using rephrase_service_log [of w log "text" s] step by simp
  show ?case
  proof (cases "success res")
    case True
    with step log' have "snd (rephrase_loop w log text (s # svcs) lr) =
        log @ map (rephrase_call w text) (take 1 (s # svcs))"
      by simp
    then show ?thesis by (intro exI [of _ 1]) simp
  next
    case False
    from Cons.IH [of log' "Some res"] obtain n where n: "n \<le> length svcs"
      "snd (rephrase_loop w log' text svcs (Some res)) =
         log' @ map (rephrase_call w text) (take n svcs)"
      by blast
    with step False log' have "snd (rephrase_loop w log text (s # svcs) lr) =
        log @ map (rephrase_call w text) (take (Suc n) (s # svcs))"
      by simp
    with n(1) show ?thesis by (intro exI [of _ "Suc n"]) simp
  qed
qed

lemma first_enabled_log:
  "\<exists>n\<le>length svcs. snd (rephrase_with_first_enabled w log text svcs) =
     log @ map (rephrase_call w text) (take n svcs)"
proof (cases "svcs = []")
  case True
  then show ?thesis by (simp add: rephrase_with_first_enabled_def)
next
  case False
  with loop_log [of svcs w log "text" None] show ?thesis
    by (simp add: rephrase_with_first_enabled_def)
qed

text \<open>
  C2. Whatever the services answer, the calls the rephraser makes are the calls of the
  first \<open>n\<close> configured services, one per service, in configuration order. When the
  attempt at position \<open>k\<close> is the first that succeeds (every attempt before it failed),
  the rephraser returns exactly what that attempt returned, its rephrased text and its
  ServiceResult, and \<open>n\<close> is \<open>k + 1\<close>: no service after position \<open>k\<close> is invoked.
\<close>

theorem first_success_short_circuits:
  "(\<exists>n\<le>length svcs.
      snd (rephrase_with_first_enabled w log text svcs) =
        log @ map (rephrase_call w text) (take n svcs))
   \<and> (\<forall>k. k < length svcs
          \<and> (\<forall>j<k. \<not> success (snd (fst (attempt_at w log text svcs j))))
          \<and> success (snd (fst (attempt_at w log text svcs k))) \<longrightarrow>
          rephrase_with_first_enabled w log text svcs = attempt_at w log text svcs k
          \<and> snd (rephrase_with_first_enabled w log text svcs) =
              log @ map (rephrase_call w text) (take (Suc k) svcs))"
proof -
  have stops: "rephrase_with_first_enabled w log text svcs = attempt_at w log text svcs k
          \<and> snd (rephrase_with_first_enabled w log text svcs) =
              log @ map (rephrase_call w text) (take (Suc k) svcs)"
    if k: "k < length svcs"
      and fails: "\<forall>j<k. \<not> success (snd (fst (attempt_at w log text svcs j)))"
      and succeeds: "success (snd (fst (attempt_at w log text svcs k)))"
    for k
  proof -
    from k have "svcs \<noteq> []" by auto
    then have "rephrase_with_first_enabled w log text svcs =
        rephrase_loop w log text svcs None"
      by (simp add: rephrase_with_first_enabled_def)
    also have "\<dots> = attempt_at w log text svcs k"
      using k fails succeeds by (rule loop_first_success)
    finally have "rephrase_with_first_enabled w log text svcs = attempt_at w log text svcs k" .
    with attempt_at_log [OF k, of w log "text"] show ?thesis by simp
  qed
  from first_enabled_log [of svcs w log "text"] stops show ?thesis by blast
qed

theorem first_success_short_circuits_witness:
  "rephrase_with_first_enabled demo_world [] ''Hello''
     [svc ''A'' ''a'', svc ''B'' ''b'', svc ''C'' ''c''] =
     ((JStr ''Hi there'',
       \<lparr>service_name = ''B'', service_type = ''rephrasing'', success = True,
        result = [(''rephrased_text'', JStr ''Hi there''), (''text'', JStr ''ignored'')],
        error = None\<rparr>),
      [HttpPost ''a'' (JStr ''Hello'') ''secret'' 30,
       HttpPost ''b'' (JStr ''Hello'') ''secret'' 30])"
proof -
  have fails: "\<forall>j<1. \<not> success (snd (fst (attempt_at demo_world [] ''Hello''
      [svc ''A'' ''a'', svc ''B'' ''b'', svc ''C'' ''c''] j)))"
    by (simp add: attempt_at_def rephrase_text_with_service_def demo_world_def demo_http_def
        svc_def get_str_def)
  have at1: "attempt_at demo_world [] ''Hello''
      [svc ''A'' ''a'', svc ''B'' ''b'', svc ''C'' ''c''] 1 =
     ((JStr ''Hi there'',
       \<lparr>service_name = ''B'', service_type = ''rephrasing'', success = True,
        result = [(''rephrased_text'', JStr ''Hi there''), (''text'', JStr ''ignored'')],
        error = None\<rparr>),
      [HttpPost ''a'' (JStr ''Hello'') ''secret'' 30,
       HttpPost ''b'' (JStr ''Hello'') ''secret'' 30])"
    by (simp add: attempt_at_def rephrase_text_with_service_def rephrase_call_def dict_get_def
        demo_world_def demo_http_def svc_def get_str_def Let_def)
  have succeeds: "success (snd (fst (attempt_at demo_world [] ''Hello''
      [svc ''A'' ''a'', svc ''B'' ''b'', svc ''C'' ''c''] 1)))"
    by (simp only: at1) simp
  have len: "1 < length [svc ''A'' ''a'', svc ''B'' ''b'', svc ''C'' ''c'']" by simp
  from first_success_short_circuits
      [of "[svc ''A'' ''a'', svc ''B'' ''b'', svc ''C'' ''c'']" demo_world "[]" "''Hello''"]
    len fails succeeds
  have "rephrase_with_first_enabled demo_world [] ''Hello''
      [svc ''A'' ''a'', svc ''B'' ''b'', svc ''C'' ''c''] =
    attempt_at demo_world [] ''Hello'' [svc ''A'' ''a'', svc ''B'' ''b'', svc ''C'' ''c''] 1"
    by blast
  with at1 show ?thesis by simp
qed

text \<open>
  C4. With at least one service configured, if every attempt fails, the rephraser returns
  the empty string together with the ServiceResult of the last service attempted, after
  one call per service; the results of the earlier attempts are not returned.
\<close>

theorem all_fail_returns_last_failure:
  assumes "svcs \<noteq> []"
    and "\<forall>j<length svcs. \<not> success (snd (fst (attempt_at w log text svcs j)))"
  shows "rephrase_with_first_enabled w log text svcs =
           ((JStr [], snd (fst (attempt_at w log text svcs (length svcs - 1)))),
            log @ map (rephrase_call w text) svcs)"
proof -
  from assms(1) obtain s rest where svcs: "svcs = s # rest" by (cases svcs) auto
  obtain rephrased res log' where step:
    "rephrase_text_with_service w log text s = ((rephrased, res), log')"
    by (metis prod.exhaust)
  have log': "log' = log @ [rephrase_call w text s]"
    using rephrase_service_log [of w log "text" s] step by simp
  have head_fails: "\<not> success res"
    using assms(2) step svcs by (auto simp: attempt_at_0 dest: spec [of _ 0])
  have tail_fail: "\<forall>j<length rest. \<not> success (snd (fst (attempt_at w log' text rest j)))"
    using assms(2) svcs log' by (auto simp: attempt_at_Suc dest: spec [of _ "Suc j" for j])
  have loop: "rephrase_loop w log' text rest (Some res) =
     ((JStr [], if rest = [] then res
                else snd (fst (attempt_at w log' text rest (length rest - 1)))),
      log' @ map (rephrase_call w text) rest)"
    using tail_fail by (rule loop_all_fail)
  show ?thesis
  proof (cases "rest = []")
    case True
    with loop step head_fails svcs log' show ?thesis
      by (simp add: rephrase_with_first_enabled_def attempt_at_0)
  next
    case False
    then obtain n where n: "length rest = Suc n" by (cases rest) auto
    with loop step head_fails svcs log' False show ?thesis
      by (simp add: rephrase_with_first_enabled_def attempt_at_Suc)
  qed
qed

lemma str_nat_503: "str_nat 503 = ''503''"
  by code_simp

theorem all_fail_returns_last_failure_witness:
  "rephrase_with_first_enabled demo_world [] ''Hello'' [svc ''A'' ''a'', svc ''E'' ''e''] =
     ((JStr [],
       \<lparr>service_name = ''E'', service_type = ''rephrasing'', success = False,
        result = [], error = Some ''HTTP error: 503''\<rparr>),
      [HttpPost ''a'' (JStr ''Hello'') ''secret'' 30,
       HttpPost ''e'' (JStr ''Hello'') ''secret'' 30])"
proof -
  have ne: "[svc ''A'' ''a'', svc ''E'' ''e''] \<noteq> []" by simp
  have at0: "\<not> success (snd (fst (attempt_at demo_world [] ''Hello''
      [svc ''A'' ''a'', svc ''E'' ''e''] 0)))"
    by (simp add: attempt_at_def rephrase_text_with_service_def demo_world_def demo_http_def
        svc_def get_str_def)
  have at1: "attempt_at demo_world [] ''Hello'' [svc ''A'' ''a'', svc ''E'' ''e''] 1 =
     ((JStr [],
       \<lparr>service_name = ''E'', service_type = ''rephrasing'', success = False,
        result = [], error = Some ''HTTP error: 503''\<rparr>),
      [HttpPost ''a'' (JStr ''Hello'') ''secret'' 30,
       HttpPost ''e'' (JStr ''Hello'') ''secret'' 30])"
    by (simp add: attempt_at_def rephrase_text_with_service_def rephrase_call_def
        demo_world_def demo_http_def svc_def get_str_def str_nat_503 Let_def)
  have fails: "\<forall>j<length [svc ''A'' ''a'', svc ''E'' ''e'']. \<not> success (snd (fst
      (attempt_at demo_world [] ''Hello'' [svc ''A'' ''a'', svc ''E'' ''e''] j)))"
  proof (intro allI impI)
    fix j assume "j < length [svc ''A'' ''a'', svc ''E'' ''e'']"
    then have "j = 0 \<or> j = 1" by auto
    then show "\<not> success (snd (fst
      (attempt_at demo_world [] ''Hello'' [svc ''A'' ''a'', svc ''E'' ''e''] j)))"
      using at0 at1 by auto
  qed
  from all_fail_returns_last_failure [OF ne fails] at1 show ?thesis
    by (simp add: rephrase_call_def svc_def get_str_def)
qed

section \<open>Outcomes of a single call\<close>

lemma str_nat_not_Nil: "str_nat n \<noteq> []"
  by (subst str_nat.simps) simp

text \<open>
  C3 (as amended). A single-service dispatch makes one call, under the timeout 30, and
  returns a ServiceResult for every outcome of that call. A failure is one of three
  kinds. Each gives \<^verbatim>\<open>success=false\<close> and an empty payload; the error is
  \<^verbatim>\<open>Request timed out\<close> for a timeout, \<^verbatim>\<open>HTTP error: \<close> followed by the status
  code for a remote status error, and the message of the exception for any other
  exception. The error string is empty only when that message is empty.
\<close>

theorem dispatch_outcomes_classified:
  "snd (check_plagiarism w log text s) =
     log @ [HttpPost (get_str (api_url s) []) text (get_str (api_key s) []) 30]
   \<and> (http w log (plagiarism_call text s) = TimeoutException \<longrightarrow>
        fst (check_plagiarism w log text s) =
          \<lparr>service_name = get_str (name s) ''Unknown Service'', service_type = ''plagiarism'',
           success = False, result = [], error = Some ''Request timed out''\<rparr>)
   \<and> (\<forall>code. http w log (plagiarism_call text s) = HTTPStatusError code \<longrightarrow>
        fst (check_plagiarism w log text s) =
          \<lparr>service_name = get_str (name s) ''Unknown Service'', service_type = ''plagiarism'',
           success = False, result = [], error = Some (''HTTP error: '' @ str_nat code)\<rparr>)
   \<and> (\<forall>msg. http w log (plagiarism_call text s) = OtherException msg \<longrightarrow>
        fst (check_plagiarism w log text s) =
          \<lparr>service_name = get_str (name s) ''Unknown Service'', service_type = ''plagiarism'',
           success = False, result = [], error = Some msg\<rparr>)
   \<and> (\<not> success (fst (check_plagiarism w log text s)) \<longrightarrow>
        (http w log (plagiarism_call text s) = TimeoutException
         \<or> (\<exists>code. http w log (plagiarism_call text s) = HTTPStatusError code)
         \<or> (\<exists>msg. http w log (plagiarism_call text s) = OtherException msg))
        \<and> result (fst (check_plagiarism w log text s)) = []
        \<and> error (fst (check_plagiarism w log text s)) \<noteq> None
        \<and> (error_is_empty (error (fst (check_plagiarism w log text s))) \<longrightarrow>
             http w log (plagiarism_call text s) = OtherException []))"
proof -
  have call: "snd (check_plagiarism w log text s) =
     log @ [HttpPost (get_str (api_url s) []) text (get_str (api_key s) []) 30]"
    by (simp add: check_plagiarism_def plagiarism_call_def Let_def)
  have timeout: "http w log (plagiarism_call text s) = TimeoutException \<longrightarrow>
        fst (check_plagiarism w log text s) =
          \<lparr>service_name = get_str (name s) ''Unknown Service'', service_type = ''plagiarism'',
           success = False, result = [], error = Some ''Request timed out''\<rparr>"
    by (simp add: check_plagiarism_def Let_def)
  have status: "\<forall>code. http w log (plagiarism_call text s) = HTTPStatusError code \<longrightarrow>
        fst (check_plagiarism w log text s) =
          \<lparr>service_name = get_str (name s) ''Unknown Service'', service_type = ''plagiarism'',
           success = False, result = [], error = Some (''HTTP error: '' @ str_nat code)\<rparr>"
    by (simp add: check_plagiarism_def Let_def)
  have other: "\<forall>msg. http w log (plagiarism_call text s) = OtherException msg \<longrightarrow>
        fst (check_plagiarism w log text s) =
          \<lparr>service_name = get_str (name s) ''Unknown Service'', service_type = ''plagiarism'',
           success = False, result = [], error = Some msg\<rparr>"
    by (simp add: check_plagiarism_def Let_def)
  have failure: "\<not> success (fst (check_plagiarism w log text s)) \<longrightarrow>
        (http w log (plagiarism_call text s) = TimeoutException
         \<or> (\<exists>code. http w log (plagiarism_call text s) = HTTPStatusError code)
         \<or> (\<exists>msg. http w log (plagiarism_call text s) = OtherException msg))
        \<and> result (fst (check_plagiarism w log text s)) = []
        \<and> error (fst (check_plagiarism w log text s)) \<noteq> None
        \<and> (error_is_empty (error (fst (check_plagiarism w log text s))) \<longrightarrow>
             http w log (plagiarism_call text s) = OtherException [])"
    by (cases "http w log (plagiarism_call text s)")
       (simp_all add: check_plagiarism_def Let_def error_is_empty_def)
  from call timeout status other failure show ?thesis by blast
qed

theorem dispatch_outcomes_classified_witness:
  "fst (check_plagiarism demo_world [] (JStr ''Hello world'') (svc ''A'' ''a'')) =
     \<lparr>service_name = ''A'', service_type = ''plagiarism'', success = False, result = [],
      error = Some ''Request timed out''\<rparr>
   \<and> fst (check_plagiarism demo_world [] (JStr ''Hello world'') (svc ''E'' ''e'')) =
     \<lparr>service_name = ''E'', service_type = ''plagiarism'', success = False, result = [],
      error = Some ''HTTP error: 503''\<rparr>
   \<and> snd (check_plagiarism demo_world [] (JStr ''Hello world'') (svc ''A'' ''a'')) =
     [HttpPost ''a'' (JStr ''Hello world'') ''secret'' 30]"
proof -
  have a: "http demo_world [] (plagiarism_call (JStr ''Hello world'') (svc ''A'' ''a'')) =
      TimeoutException"
    by (simp add: demo_world_def demo_http_def plagiarism_call_def svc_def get_str_def)
  have e: "http demo_world [] (plagiarism_call (JStr ''Hello world'') (svc ''E'' ''e'')) =
      HTTPStatusError 503"
    by (simp add: demo_world_def demo_http_def plagiarism_call_def svc_def get_str_def)
  from a e
    dispatch_outcomes_classified [of demo_world "[]" "JStr ''Hello world''" "svc ''A'' ''a''"]
    dispatch_outcomes_classified [of demo_world "[]" "JStr ''Hello world''" "svc ''E'' ''e''"]
  show ?thesis by (simp add: svc_def get_str_def str_nat_503)
qed

text \<open>
  The claim as stated fails: when the exception caught by the last handler has an empty
  message, the dispatcher returns a failure whose error string is empty.
\<close>

theorem dispatch_error_nonempty_counterexample:
  "\<not> success (fst (check_plagiarism silent_world [] (JStr ''Hello world'') (svc ''A'' ''a'')))
   \<and> error (fst (check_plagiarism silent_world [] (JStr ''Hello world'') (svc ''A'' ''a''))) =
       Some []"
  by (simp add: check_plagiarism_def silent_world_def Let_def)

section \<open>Results of a rephrasing call\<close>

text \<open>
  C9. When the service is not routed to the language model and the remote call answers
  with a payload, the call is a success whose rephrased value is the payload's entry
  under \<^verbatim>\<open>rephrased_text\<close> if that key is present, else its entry under
  \<^verbatim>\<open>text\<close> if that key is present, else the empty string; the payload is returned
  unchanged as the result.
\<close>

theorem rephrased_text_extraction:
  assumes "get_str (api_url s) [] \<noteq> ''openai''"
    and "http w log (rephrase_call w text s) = Responded payload"
  shows "rephrase_text_with_service w log text s =
           (((case map_of payload ''rephrased_text'' of
               Some v \<Rightarrow> v
             | None \<Rightarrow> (case map_of payload ''text'' of Some v \<Rightarrow> v | None \<Rightarrow> JStr [])),
             \<lparr>service_name = get_str (name s) ''Unknown Service'',
              service_type = ''rephrasing'', success = True, result = payload,
              error = None\<rparr>),
            log @ [rephrase_call w text s])"
  using assms
  by (simp add: rephrase_text_with_service_def rephrase_call_def dict_get_def Let_def)

theorem rephrased_text_extraction_witness:
  "fst (fst (rephrase_text_with_service demo_world [] ''Hello'' (svc ''B'' ''b''))) =
     JStr ''Hi there''
   \<and> fst (fst (rephrase_text_with_service demo_world [] ''Hello'' (svc ''C'' ''c''))) =
     JStr ''Good day''
   \<and> fst (rephrase_text_with_service demo_world [] ''Hello'' (svc ''D'' ''d'')) =
     (JStr [],
      \<lparr>service_name = ''D'', service_type = ''rephrasing'', success = True,
       result = [(''score'', JNum 7)], error = None\<rparr>)"
proof -
  have b: "http demo_world [] (rephrase_call demo_world ''Hello'' (svc ''B'' ''b'')) =
      Responded [(''rephrased_text'', JStr ''Hi there''), (''text'', JStr ''ignored'')]"
    by (simp add: demo_world_def demo_http_def rephrase_call_def svc_def get_str_def Let_def)
  have c: "http demo_world [] (rephrase_call demo_world ''Hello'' (svc ''C'' ''c'')) =
      Responded [(''text'', JStr ''Good day'')]"
    by (simp add: demo_world_def demo_http_def rephrase_call_def svc_def get_str_def Let_def)
  have d: "http demo_world [] (rephrase_call demo_world ''Hello'' (svc ''D'' ''d'')) =
      Responded [(''score'', JNum 7)]"
    by (simp add: demo_world_def demo_http_def rephrase_call_def svc_def get_str_def Let_def)
  have nb: "get_str (api_url (svc ''B'' ''b'')) [] \<noteq> ''openai''"
    by (simp add: svc_def get_str_def)
  have nc: "get_str (api_url (svc ''C'' ''c'')) [] \<noteq> ''openai''"
    by (simp add: svc_def get_str_def)
  have nd: "get_str (api_url (svc ''D'' ''d'')) [] \<noteq> ''openai''"
    by (simp add: svc_def get_str_def)
  from rephrased_text_extraction [OF nb b] rephrased_text_extraction [OF nc c]
    rephrased_text_extraction [OF nd d]
  show ?thesis by (simp add: svc_def get_str_def)
qed

text \<open>
  C10. When the service's \<^verbatim>\<open>api_url\<close> is \<^verbatim>\<open>openai\<close> and the call succeeds, the
  ServiceResult is named \<^verbatim>\<open>OpenAI Rephraser\<close>, whatever name the service is
  configured with, and its payload is the single entry that maps
  \<^verbatim>\<open>rephrased_text\<close> to the string returned as the rephrased text.
\<close>

theorem openai_sentinel_result:
  assumes "get_str (api_url s) [] = ''openai''"
    and "rephrase_text_with_service w log text s = ((r, res), log')"
    and "success res"
  shows "service_name res = ''OpenAI Rephraser''
         \<and> result res = [(''rephrased_text'', r)]
         \<and> map_of (result res) ''rephrased_text'' = Some r
         \<and> (\<exists>str. r = JStr str)"
  using assms
  by (auto simp: rephrase_text_with_service_def rephrase_text_with_openai_def Let_def
      split: chat_outcome.splits)

theorem openai_sentinel_result_witness:
  "rephrase_text_with_service demo_world [] ''Hello'' (svc ''My rewriter'' ''openai'') =
     ((JStr ''Rewritten'',
       \<lparr>service_name = ''OpenAI Rephraser'', service_type = ''rephrasing'', success = True,
        result = [(''rephrased_text'', JStr ''Rewritten'')], error = None\<rparr>),
      [ChatCompletion ''secret'' ''gpt-4'' RephrasePrompt ''Hello''])
   \<and> service_name (snd (fst (rephrase_text_with_service demo_world [] ''Hello''
        (svc ''My rewriter'' ''openai'')))) = ''OpenAI Rephraser''"
proof -
  have url: "get_str (api_url (svc ''My rewriter'' ''openai'')) [] = ''openai''"
    by (simp add: svc_def get_str_def)
  have run: "rephrase_text_with_service demo_world [] ''Hello'' (svc ''My rewriter'' ''openai'') =
     ((JStr ''Rewritten'',
       \<lparr>service_name = ''OpenAI Rephraser'', service_type = ''rephrasing'', success = True,
        result = [(''rephrased_text'', JStr ''Rewritten'')], error = None\<rparr>),
      [ChatCompletion ''secret'' ''gpt-4'' RephrasePrompt ''Hello''])"
    by (simp add: rephrase_text_with_service_def rephrase_text_with_openai_def demo_world_def
        svc_def get_str_def Let_def)
  have ok: "success \<lparr>service_name = ''OpenAI Rephraser'', service_type = ''rephrasing'',
        success = True, result = [(''rephrased_text'', JStr ''Rewritten'')], error = None\<rparr>"
    by simp
  from openai_sentinel_result [OF url run ok] run show ?thesis by simp
qed

section \<open>The shape of every ServiceResult\<close>

lemma check_plagiarism_shape: "result_shape (fst (check_plagiarism w log text s))"
  by (simp add: check_plagiarism_def result_shape_def Let_def split: http_outcome.split)

lemma check_plagiarism_invariant:
  assumes "messages_nonempty w"
  shows "result_invariant (fst (check_plagiarism w log text s))"
proof (cases "http w log (plagiarism_call text s)")
  case (OtherException msg)
  with assms have "msg \<noteq> []" by (auto simp: messages_nonempty_def)
  with OtherException show ?thesis
    by (simp add: check_plagiarism_def result_invariant_def error_is_empty_def Let_def)
qed (simp_all add: check_plagiarism_def result_invariant_def error_is_empty_def Let_def
      str_nat_not_Nil)

text \<open>What holds of every single result holds of every element of a dispatch.\<close>

lemma plagiarism_fold_all:
  assumes "\<And>log s. P (fst (check_plagiarism w log text s))"
  shows "list_all P acc \<Longrightarrow> list_all P (fst (fold (plagiarism_step w text) svcs (acc, log)))"
proof (induction svcs arbitrary: acc log)
  case Nil
  then show ?case by simp
next
  case (Cons s svcs)
  obtain r log' where step: "check_plagiarism w log text s = (r, log')"
    by (cases "check_plagiarism w log text s")
  have "P r" using assms [of log s] step by simp
  with Cons.prems have "list_all P (acc @ [r])" by simp
  from Cons.IH [OF this, of log'] step show ?case by (simp add: plagiarism_step_def)
qed

lemma openai_shape: "result_shape (snd (fst (rephrase_text_with_openai w log text key)))"
  by (simp add: rephrase_text_with_openai_def result_shape_def Let_def
      split: chat_outcome.split)

lemma openai_invariant:
  assumes "messages_nonempty w"
  shows "result_invariant (snd (fst (rephrase_text_with_openai w log text key)))"
proof (cases "chat w log (ChatCompletion key ''gpt-4'' RephrasePrompt text)")
  case (ChatException msg)
  with assms have "msg \<noteq> []" by (auto simp: messages_nonempty_def)
  with ChatException show ?thesis
    by (simp add: rephrase_text_with_openai_def result_invariant_def error_is_empty_def Let_def)
qed (simp add: rephrase_text_with_openai_def result_invariant_def error_is_empty_def Let_def)

lemma service_shape: "result_shape (snd (fst (rephrase_text_with_service w log text s)))"
proof (cases "get_str (api_url s) [] = ''openai''")
  case True
  then show ?thesis by (simp add: rephrase_text_with_service_def Let_def openai_shape)
next
  case False
  then show ?thesis
    by (simp add: rephrase_text_with_service_def result_shape_def Let_def
        split: http_outcome.split)
qed

lemma service_invariant:
  assumes "messages_nonempty w"
  shows "result_invariant (snd (fst (rephrase_text_with_service w log text s)))"
proof (cases "get_str (api_url s) [] = ''openai''")
  case True
  then show ?thesis
    by (simp add: rephrase_text_with_service_def Let_def openai_invariant [OF assms])
next
  case False
  show ?thesis
  proof (cases "http w log (HttpPost (get_str (api_url s) []) (JStr text)
                  (get_str (api_key s) []) 30)")
    case (OtherException msg)
    with assms have "msg \<noteq> []" by (auto simp: messages_nonempty_def)
    with OtherException False show ?thesis
      by (simp add: rephrase_text_with_service_def result_invariant_def error_is_empty_def
          Let_def)
  qed (use False in \<open>simp_all add: rephrase_text_with_service_def result_invariant_def
        error_is_empty_def Let_def str_nat_not_Nil\<close>)
qed

text \<open>
  The loop returns the result of one of its attempts, the result it was started with, or
  the result built after the loop.
\<close>

lemma loop_result:
  assumes "\<And>log s. P (snd (fst (rephrase_text_with_service w log text s)))"
    and "P \<lparr>service_name = ''None'', service_type = ''rephrasing'', success = False,
            result = [], error = Some ''No rephrasing services available''\<rparr>"
  shows "(case lr of Some r \<Rightarrow> P r | None \<Rightarrow> True) \<Longrightarrow>
         P (snd (fst (rephrase_loop w log text svcs lr)))"
proof (induction svcs arbitrary: log lr)
  case Nil
  with assms(2) show ?case by (simp split: option.splits)
next
  case (Cons s svcs)
  obtain rephrased res log' where step:
    "rephrase_text_with_service w log text s = ((rephrased, res), log')"
    by (metis prod.exhaust)
  have res: "P res" using assms(1) [of log s] step by simp
  show ?case
  proof (cases "success res")
    case True
    with step res show ?thesis by simp
  next
    case False
    from res have "case Some res of Some r \<Rightarrow> P r | None \<Rightarrow> True" by simp
    from Cons.IH [OF this, of log'] step False show ?thesis by simp
  qed
qed

lemma first_enabled_shape:
  "result_shape (snd (fst (rephrase_with_first_enabled w log text svcs)))"
proof (cases "svcs = []")
  case True
  then show ?thesis by (simp add: rephrase_with_first_enabled_def result_shape_def)
next
  case False
  have dead: "result_shape \<lparr>service_name = ''None'', service_type = ''rephrasing'',
      success = False, result = [], error = Some ''No rephrasing services available''\<rparr>"
    by (simp add: result_shape_def)
  have "result_shape (snd (fst (rephrase_loop w log text svcs None)))"
    by (rule loop_result [where P = result_shape, OF service_shape dead]) simp
  with False show ?thesis by (simp add: rephrase_with_first_enabled_def)
qed

lemma first_enabled_invariant:
  assumes "messages_nonempty w"
  shows "result_invariant (snd (fst (rephrase_with_first_enabled w log text svcs)))"
proof (cases "svcs = []")
  case True
  then show ?thesis
    by (simp add: rephrase_with_first_enabled_def result_invariant_def error_is_empty_def)
next
  case False
  have dead: "result_invariant \<lparr>service_name = ''None'', service_type = ''rephrasing'',
      success = False, result = [], error = Some ''No rephrasing services available''\<rparr>"
    by (simp add: result_invariant_def error_is_empty_def)
  have "result_invariant (snd (fst (rephrase_loop w log text svcs None)))"
    by (rule loop_result [where P = result_invariant, OF service_invariant [OF assms] dead])
       simp
  with False show ?thesis by (simp add: rephrase_with_first_enabled_def)
qed

text \<open>
  C7 (as amended). Every ServiceResult that the dispatcher, the rephraser and their
  helpers return has no error when \<^verbatim>\<open>success\<close> is true and, when \<^verbatim>\<open>success\<close> is
  false, an empty payload and an error string. In a world where no exception caught by
  a handler has an empty message that string is not empty, and the invariant of the data
  model holds as the spec words it.
\<close>

theorem service_results_shape:
  "result_shape (fst (check_plagiarism w log text s))
   \<and> list_all result_shape (fst (check_all_plagiarism_services w log text svcs))
   \<and> result_shape (snd (fst (rephrase_text_with_openai w log t key)))
   \<and> result_shape (snd (fst (rephrase_text_with_service w log t s)))
   \<and> result_shape (snd (fst (rephrase_with_first_enabled w log t svcs)))
   \<and> (messages_nonempty w \<longrightarrow>
        result_invariant (fst (check_plagiarism w log text s))
        \<and> list_all result_invariant (fst (check_all_plagiarism_services w log text svcs))
        \<and> result_invariant (snd (fst (rephrase_text_with_openai w log t key)))
        \<and> result_invariant (snd (fst (rephrase_text_with_service w log t s)))
        \<and> result_invariant (snd (fst (rephrase_with_first_enabled w log t svcs))))"
proof -
  have all_shape: "list_all result_shape (fst (check_all_plagiarism_services w log text svcs))"
    unfolding check_all_plagiarism_services_def
    by (rule plagiarism_fold_all) (simp_all add: check_plagiarism_shape)
  have all_inv: "list_all result_invariant (fst (check_all_plagiarism_services w log text svcs))"
    if "messages_nonempty w"
    unfolding check_all_plagiarism_services_def
    by (rule plagiarism_fold_all) (simp_all add: check_plagiarism_invariant [OF that])
  show ?thesis
    using all_shape all_inv
    by (simp add: check_plagiarism_shape openai_shape service_shape first_enabled_shape
        check_plagiarism_invariant openai_invariant service_invariant first_enabled_invariant)
qed

theorem service_results_shape_witness:
  "messages_nonempty polite_world
   \<and> result_invariant (snd (fst (rephrase_with_first_enabled polite_world [] ''Hello''
        [svc ''A'' ''a'', svc ''L'' ''openai''])))
   \<and> error (snd (fst (rephrase_with_first_enabled polite_world [] ''Hello''
        [svc ''A'' ''a'', svc ''L'' ''openai'']))) = Some ''Connection error.''"
proof -
  have polite: "messages_nonempty polite_world"
    by (simp add: messages_nonempty_def polite_world_def demo_world_def demo_http_def
        split: call.split)
  have run: "error (snd (fst (rephrase_with_first_enabled polite_world [] ''Hello''
        [svc ''A'' ''a'', svc ''L'' ''openai'']))) = Some ''Connection error.''"
    by (simp add: rephrase_with_first_enabled_def rephrase_text_with_service_def
        rephrase_text_with_openai_def polite_world_def demo_world_def demo_http_def svc_def
        get_str_def Let_def)
  from polite run
    service_results_shape [of polite_world "[]" "JStr ''Hello''" "svc ''A'' ''a''"
      "[svc ''A'' ''a'', svc ''L'' ''openai'']" "''Hello''" "''secret''"]
  show ?thesis by simp
qed

text \<open>
  The invariant as the spec words it fails where an exception with an empty message is
  caught: the result is a failure whose error is the empty string.
\<close>

theorem result_invariant_counterexample:
  "\<not> result_invariant
       (snd (fst (rephrase_text_with_service silent_world [] ''Hello'' (svc ''L'' ''openai''))))"
  by (simp add: result_invariant_def error_is_empty_def rephrase_text_with_service_def
      rephrase_text_with_openai_def silent_world_def svc_def get_str_def Let_def)

section \<open>Properties of the summary generator\<close>

lemma fallback_ends_with_recommendations:
  "suffix (nl @ ''### Recommendations'' @ nl @
           ''Review the detailed results from each service to understand the analysis findings.''
           @ nl)
     (generate_fallback_summary pl ai None)"
  by (cases "pl = []"; cases "ai = []"; simp add: generate_fallback_summary_def;
      (rule suffix_order.refl | rule suffix_ConsI | rule suffix_appendI)+)

lemma fallback_no_plagiarism_checkers:
  "prefix (''## Analysis Summary'' @ nl @ nl @ ''### Plagiarism Check'' @ nl @
           ''No plagiarism checkers were enabled.'' @ nl @ nl @ ''### AI Content Detection'' @ nl)
     (generate_fallback_summary [] ai None)"
  by (simp add: generate_fallback_summary_def)

lemma fallback_no_ai_detectors:
  "suffix (nl @ ''### AI Content Detection'' @ nl @ ''No AI detectors were enabled.'' @ nl @ nl @
           ''### Recommendations'' @ nl @
           ''Review the detailed results from each service to understand the analysis findings.''
           @ nl)
     (generate_fallback_summary pl [] None)"
  by (cases "pl = []"; simp add: generate_fallback_summary_def;
      (rule suffix_order.refl | rule suffix_ConsI | rule suffix_appendI)+)

text \<open>
  C5. Called with an empty credential, the summary generator makes no call (the log is
  returned unchanged) and its output is the fallback template rendered from the two
  result sequences with no error; the output depends on nothing else, so repeated calls,
  in any world and on any text, give the same string. The template is the heading, then
  the plagiarism section, the AI-detection section and the recommendations section. A
  section with results lists every successful service with \<^verbatim>\<open>Check completed\<close>
  (\<^verbatim>\<open>Detection completed\<close> for AI detection), in the order of the sequence, and after
  them every failed service with its error; a section without results says that no
  plagiarism checkers, or no AI detectors, were enabled.
\<close>

theorem summary_without_credential_is_template:
  "generate_summary w log text pl ai [] model = (generate_fallback_summary pl ai None, log)
   \<and> fst (generate_summary w log text pl ai [] model) =
       fst (generate_summary w' log' text' pl ai [] model')
   \<and> fst (generate_summary w log text pl ai [] model) =
       ''## Analysis Summary'' @ nl @ nl @
       ''### Plagiarism Check'' @ nl @
       (if pl = [] then ''No plagiarism checkers were enabled.'' @ nl
        else concat (map (\<lambda>r. ''- **'' @ service_name r @ ''**: Check completed'' @ nl)
                       (filter success pl)) @
             concat (map (\<lambda>r. ''- **'' @ service_name r @ ''**: '' @ str_opt (error r) @ nl)
                       (filter (\<lambda>r. \<not> success r) pl))) @
       nl @ ''### AI Content Detection'' @ nl @
       (if ai = [] then ''No AI detectors were enabled.'' @ nl
        else concat (map (\<lambda>r. ''- **'' @ service_name r @ ''**: Detection completed'' @ nl)
                       (filter success ai)) @
             concat (map (\<lambda>r. ''- **'' @ service_name r @ ''**: '' @ str_opt (error r) @ nl)
                       (filter (\<lambda>r. \<not> success r) ai))) @
       nl @ ''### Recommendations'' @ nl @
       ''Review the detailed results from each service to understand the analysis findings.''
       @ nl
   \<and> prefix (''## Analysis Summary'' @ nl @ nl @ ''### Plagiarism Check'' @ nl @
           ''No plagiarism checkers were enabled.'' @ nl @ nl @ ''### AI Content Detection'' @ nl)
        (generate_fallback_summary [] ai None)
   \<and> suffix (nl @ ''### AI Content Detection'' @ nl @ ''No AI detectors were enabled.'' @ nl @
           nl @ ''### Recommendations'' @ nl @
           ''Review the detailed results from each service to understand the analysis findings.''
           @ nl)
        (generate_fallback_summary pl [] None)
   \<and> suffix (nl @ ''### Recommendations'' @ nl @
           ''Review the detailed results from each service to understand the analysis findings.''
           @ nl)
        (generate_fallback_summary pl ai None)"
proof -
  have run: "generate_summary w log text pl ai [] model =
      (generate_fallback_summary pl ai None, log)"
    by (simp add: generate_summary_def)
  have again: "fst (generate_summary w log text pl ai [] model) =
      fst (generate_summary w' log' text' pl ai [] model')"
    by (simp add: generate_summary_def)
  have render: "fst (generate_summary w log text pl ai [] model) =
       ''## Analysis Summary'' @ nl @ nl @
       ''### Plagiarism Check'' @ nl @
       (if pl = [] then ''No plagiarism checkers were enabled.'' @ nl
        else concat (map (\<lambda>r. ''- **'' @ service_name r @ ''**: Check completed'' @ nl)
                       (filter success pl)) @
             concat (map (\<lambda>r. ''- **'' @ service_name r @ ''**: '' @ str_opt (error r) @ nl)
                       (filter (\<lambda>r. \<not> success r) pl))) @
       nl @ ''### AI Content Detection'' @ nl @
       (if ai = [] then ''No AI detectors were enabled.'' @ nl
        else concat (map (\<lambda>r. ''- **'' @ service_name r @ ''**: Detection completed'' @ nl)
                       (filter success ai)) @
             concat (map (\<lambda>r. ''- **'' @ service_name r @ ''**: '' @ str_opt (error r) @ nl)
                       (filter (\<lambda>r. \<not> success r) ai))) @
       nl @ ''### Recommendations'' @ nl @
       ''Review the detailed results from each service to understand the analysis findings.''
       @ nl"
    by (cases "pl = []"; cases "ai = []";
        simp add: generate_summary_def generate_fallback_summary_def)
  from run again render fallback_no_plagiarism_checkers [of ai] fallback_no_ai_detectors [of pl]
    fallback_ends_with_recommendations [of pl ai]
  show ?thesis by (intro conjI)
qed

theorem summary_without_credential_is_template_witness:
  "generate_summary demo_world [] (JStr ''Hello world'') [] [] [] ''gpt-4'' =
     (''## Analysis Summary'' @ nl @ nl @ ''### Plagiarism Check'' @ nl @
      ''No plagiarism checkers were enabled.'' @ nl @ nl @ ''### AI Content Detection'' @ nl @
      ''No AI detectors were enabled.'' @ nl @ nl @ ''### Recommendations'' @ nl @
      ''Review the detailed results from each service to understand the analysis findings.''
      @ nl, [])
   \<and> generate_summary demo_world [] (JStr ''Hello world'')
       [\<lparr>service_name = ''P1'', service_type = ''plagiarism'', success = False, result = [],
         error = Some ''Request timed out''\<rparr>,
        \<lparr>service_name = ''P2'', service_type = ''plagiarism'', success = True,
         result = [(''score'', JNum 7)], error = None\<rparr>]
       [\<lparr>service_name = ''D1'', service_type = ''ai_detection'', success = True, result = [],
         error = None\<rparr>]
       [] ''gpt-4'' =
     (''## Analysis Summary'' @ nl @ nl @ ''### Plagiarism Check'' @ nl @
      ''- **P2**: Check completed'' @ nl @
      ''- **P1**: Request timed out'' @ nl @ nl @ ''### AI Content Detection'' @ nl @
      ''- **D1**: Detection completed'' @ nl @ nl @ ''### Recommendations'' @ nl @
      ''Review the detailed results from each service to understand the analysis findings.''
      @ nl, [])"
proof -
  from summary_without_credential_is_template
    [of demo_world "[]" "JStr ''Hello world''" "[]" "[]" "''gpt-4''"
        demo_world "[]" "JStr ''Hello world''" "''gpt-4''"]
  have empty: "generate_summary demo_world [] (JStr ''Hello world'') [] [] [] ''gpt-4'' =
     (''## Analysis Summary'' @ nl @ nl @ ''### Plagiarism Check'' @ nl @
      ''No plagiarism checkers were enabled.'' @ nl @ nl @ ''### AI Content Detection'' @ nl @
      ''No AI detectors were enabled.'' @ nl @ nl @ ''### Recommendations'' @ nl @
      ''Review the detailed results from each service to understand the analysis findings.''
      @ nl, [])"
    by (simp add: generate_fallback_summary_def)
  let ?pl = "[\<lparr>service_name = ''P1'', service_type = ''plagiarism'', success = False,
         result = [], error = Some ''Request timed out''\<rparr>,
        \<lparr>service_name = ''P2'', service_type = ''plagiarism'', success = True,
         result = [(''score'', JNum 7)], error = None\<rparr>]"
  let ?ai = "[\<lparr>service_name = ''D1'', service_type = ''ai_detection'', success = True,
         result = [], error = None\<rparr>]"
  have rendered:
    "fst (generate_summary demo_world [] (JStr ''Hello world'') ?pl ?ai [] ''gpt-4'') =
      ''## Analysis Summary'' @ nl @ nl @ ''### Plagiarism Check'' @ nl @
      ''- **P2**: Check completed'' @ nl @
      ''- **P1**: Request timed out'' @ nl @ nl @ ''### AI Content Detection'' @ nl @
      ''- **D1**: Detection completed'' @ nl @ nl @ ''### Recommendations'' @ nl @
      ''Review the detailed results from each service to understand the analysis findings.''
      @ nl"
    using summary_without_credential_is_template
      [of demo_world "[]" "JStr ''Hello world''" ?pl ?ai "''gpt-4''"
          demo_world "[]" "JStr ''Hello world''" "''gpt-4''",
       THEN conjunct2, THEN conjunct2, THEN conjunct1]
    by (simp add: str_opt_def)
  have "snd (generate_summary demo_world [] (JStr ''Hello world'') ?pl ?ai [] ''gpt-4'') = []"
    by (simp add: generate_summary_def)
  with rendered have full: "generate_summary demo_world [] (JStr ''Hello world'') ?pl ?ai [] ''gpt-4'' =
     (''## Analysis Summary'' @ nl @ nl @ ''### Plagiarism Check'' @ nl @
      ''- **P2**: Check completed'' @ nl @
      ''- **P1**: Request timed out'' @ nl @ nl @ ''### AI Content Detection'' @ nl @
      ''- **D1**: Detection completed'' @ nl @ nl @ ''### Recommendations'' @ nl @
      ''Review the detailed results from each service to understand the analysis findings.''
      @ nl, [])"
    by (simp add: prod_eq_iff)
  from empty full show ?thesis by (intro conjI)
qed

lemma fallback_annotation:
  "\<exists>rest. generate_fallback_summary pl ai None = ''## Analysis Summary'' @ nl @ nl @ rest
     \<and> generate_fallback_summary pl ai (Some []) = ''## Analysis Summary'' @ nl @ nl @ rest
     \<and> (\<forall>msg. msg \<noteq> [] \<longrightarrow>
          generate_fallback_summary pl ai (Some msg) =
            ''## Analysis Summary'' @ nl @ nl @
            ''*Note: AI summary generation encountered an issue: '' @ msg @ ''*'' @ nl @ nl @
            rest)"
  by (rule exI [of _ "drop 21 (generate_fallback_summary pl ai None)"])
     (simp add: generate_fallback_summary_def)

text \<open>
  C6 (as amended). With a credential, every exception raised inside the \<^verbatim>\<open>try\<close>,
  by the language-model call or while its context is prepared, is turned into the
  fallback summary rendered with the exception's message; that summary is the template
  with one note line after the heading when the message is not empty, and the plain
  template when the message is empty. An answer without content (\<^verbatim>\<open>None\<close> or the
  empty string) gives the plain template, with no note. Every outcome is a string: the
  function has no exceptional result.
\<close>

theorem summary_failure_falls_back:
  assumes "key \<noteq> []"
  shows "(\<forall>msg. prepare_results_context w text pl ai = Inl msg \<longrightarrow>
            generate_summary w log text pl ai key model =
              (generate_fallback_summary pl ai (Some msg), log))
         \<and> (\<forall>context msg.
              prepare_results_context w text pl ai = Inr context \<and>
              chat w log (ChatCompletion key model SummaryPrompt context) = ChatException msg \<longrightarrow>
              fst (generate_summary w log text pl ai key model) =
                generate_fallback_summary pl ai (Some msg))
         \<and> (\<forall>context.
              prepare_results_context w text pl ai = Inr context \<and>
              (chat w log (ChatCompletion key model SummaryPrompt context) = Completion None \<or>
               chat w log (ChatCompletion key model SummaryPrompt context) =
                 Completion (Some [])) \<longrightarrow>
              fst (generate_summary w log text pl ai key model) =
                generate_fallback_summary pl ai None)
         \<and> (\<exists>rest.
              generate_fallback_summary pl ai None = ''## Analysis Summary'' @ nl @ nl @ rest
              \<and> generate_fallback_summary pl ai (Some []) =
                  ''## Analysis Summary'' @ nl @ nl @ rest
              \<and> (\<forall>msg. msg \<noteq> [] \<longrightarrow>
                   generate_fallback_summary pl ai (Some msg) =
                     ''## Analysis Summary'' @ nl @ nl @
                     ''*Note: AI summary generation encountered an issue: '' @ msg @ ''*'' @
                     nl @ nl @ rest))"
proof -
  have context_fails: "\<forall>msg. prepare_results_context w text pl ai = Inl msg \<longrightarrow>
            generate_summary w log text pl ai key model =
              (generate_fallback_summary pl ai (Some msg), log)"
    using assms by (simp add: generate_summary_def)
  have call_fails: "\<forall>context msg.
              prepare_results_context w text pl ai = Inr context \<and>
              chat w log (ChatCompletion key model SummaryPrompt context) = ChatException msg \<longrightarrow>
              fst (generate_summary w log text pl ai key model) =
                generate_fallback_summary pl ai (Some msg)"
    using assms by (simp add: generate_summary_def Let_def)
  have no_content: "\<forall>context.
              prepare_results_context w text pl ai = Inr context \<and>
              (chat w log (ChatCompletion key model SummaryPrompt context) = Completion None \<or>
               chat w log (ChatCompletion key model SummaryPrompt context) =
                 Completion (Some [])) \<longrightarrow>
              fst (generate_summary w log text pl ai key model) =
                generate_fallback_summary pl ai None"
    using assms by (auto simp: generate_summary_def Let_def)
  from context_fails call_fails no_content fallback_annotation [of pl ai]
  show ?thesis by (intro conjI)
qed

theorem summary_failure_falls_back_witness:
  "fst (generate_summary polite_world [] (JStr ''Hello world'') [] [] ''sk-test'' ''gpt-4'') =
     ''## Analysis Summary'' @ nl @ nl @
     ''*Note: AI summary generation encountered an issue: Connection error.*'' @ nl @ nl @
     ''### Plagiarism Check'' @ nl @
     ''No plagiarism checkers were enabled.'' @ nl @ nl @ ''### AI Content Detection'' @ nl @
     ''No AI detectors were enabled.'' @ nl @ nl @ ''### Recommendations'' @ nl @
     ''Review the detailed results from each service to understand the analysis findings.''
     @ nl"
proof -
  have credential: "''sk-test'' \<noteq> []" by simp
  have prepared: "prepare_results_context polite_world (JStr ''Hello world'') [] [] =
      Inr (''Text being analyzed (first 500 chars): Hello world...'' @ nl @ nl @
           ''PLAGIARISM CHECK RESULTS:'' @ nl @
           ''- No plagiarism checkers were enabled or available.'' @ nl @ nl @
           ''AI DETECTION RESULTS:'' @ nl @
           ''- No AI detectors were enabled or available.'' @ nl)"
    by (simp add: prepare_results_context_def)
  have refused: "chat polite_world [] (ChatCompletion ''sk-test'' ''gpt-4'' SummaryPrompt
           (''Text being analyzed (first 500 chars): Hello world...'' @ nl @ nl @
           ''PLAGIARISM CHECK RESULTS:'' @ nl @
           ''- No plagiarism checkers were enabled or available.'' @ nl @ nl @
           ''AI DETECTION RESULTS:'' @ nl @
           ''- No AI detectors were enabled or available.'' @ nl)) =
        ChatException ''Connection error.''"
    by (simp add: polite_world_def)
  from summary_failure_falls_back [OF credential, of polite_world "JStr ''Hello world''" "[]" "[]"
      "[]" "''gpt-4''"] prepared refused
  have "fst (generate_summary polite_world [] (JStr ''Hello world'') [] [] ''sk-test''
          ''gpt-4'') = generate_fallback_summary [] [] (Some ''Connection error.'')"
    by blast
  then show ?thesis by (simp add: generate_fallback_summary_def)
qed

text \<open>
  The claim as stated fails for an answer without content: the call is made, and the
  summary returned is the plain template, with no note of any failure.
\<close>

theorem summary_annotation_counterexample:
  "fst (generate_summary blank_answer_world [] (JStr ''Hello world'') [] [] ''sk-test''
          ''gpt-4'') = generate_fallback_summary [] [] None
   \<and> \<not> prefix (''## Analysis Summary'' @ nl @ nl @
                ''*Note: AI summary generation encountered an issue: '')
          (fst (generate_summary blank_answer_world [] (JStr ''Hello world'') [] []
                  ''sk-test'' ''gpt-4''))
   \<and> length (snd (generate_summary blank_answer_world [] (JStr ''Hello world'') [] []
                  ''sk-test'' ''gpt-4'')) = 1"
  by (simp add: generate_summary_def prepare_results_context_def blank_answer_world_def
      generate_fallback_summary_def Let_def)

section \<open>Properties of the rephrase flow\<close>

text \<open>A text of whitespace only is rejected before anything else happens.\<close>

lemma strip_all_space:
  assumes "list_all py_isspace s"
  shows "strip s = []"
proof -
  from assms have blank: "dropWhile py_isspace s = []"
    by (induction s) simp_all
  show ?thesis by (simp only: strip_def blank rev.simps dropWhile.simps)
qed

lemma blank_text_rejected:
  "list_all py_isspace text \<Longrightarrow>
   rephrase_text w log text = (Inl (HTTPException 400 ''No text provided for rephrasing.''), log)"
  by (simp add: rephrase_text_def strip_all_space)

lemma blank_text_rejected_example:
  "rephrase_text demo_world [] [CHR 0x85, CHR 0xA0, CHR 0x20, CHR 0x0A] =
     (Inl (HTTPException 400 ''No text provided for rephrasing.''), [])"
  by (rule blank_text_rejected) (simp add: py_isspace_def)

text \<open>
  C8 (as amended). In the rephrase flow, once the text is not blank and the
  configuration is loaded, a failed rephraser result aborts the flow with the error 500
  whose detail is \<^verbatim>\<open>Rephrasing failed: \<close> followed by the failure's error string; the
  calls made are those of the rephraser alone, each the call of a rephrasing service, so
  no plagiarism or AI-detection dispatch runs. With no enabled rephrasing service the
  rephraser returns, without a call, the empty string and a failure whose error is
  \<^verbatim>\<open>No rephrasing services enabled\<close>, and the flow aborts with the detail
  \<^verbatim>\<open>Rephrasing failed: No rephrasing services enabled\<close>.
\<close>

theorem rephrase_failure_aborts_flow:
  assumes "strip text \<noteq> []"
    and "load_config w = Inr config"
  shows "(\<forall>r res log1.
            rephrase_with_first_enabled w log text (get_enabled_services config ''rephrasing'')
              = ((r, res), log1) \<and> \<not> success res \<longrightarrow>
            (\<exists>reason. error res = Some reason
               \<and> rephrase_text w log text =
                   (Inl (HTTPException 500 (''Rephrasing failed: '' @ reason)), log1))
            \<and> (\<exists>n\<le>length (get_enabled_services config ''rephrasing'').
                  log1 = log @ map (rephrase_call w text)
                                 (take n (get_enabled_services config ''rephrasing''))))
         \<and> rephrase_with_first_enabled w log text [] =
             ((JStr [],
               \<lparr>service_name = ''None'', service_type = ''rephrasing'', success = False,
                result = [], error = Some ''No rephrasing services enabled''\<rparr>), log)
         \<and> (get_enabled_services config ''rephrasing'' = [] \<longrightarrow>
              rephrase_text w log text =
                (Inl (HTTPException 500 ''Rephrasing failed: No rephrasing services enabled''),
                 log))"
proof -
  from assms(1) have nonblank: "\<not> (text = [] \<or> strip text = [])"
    by (auto simp: strip_def)
  have failed: "(\<exists>reason. error res = Some reason
               \<and> rephrase_text w log text =
                   (Inl (HTTPException 500 (''Rephrasing failed: '' @ reason)), log1))
            \<and> (\<exists>n\<le>length (get_enabled_services config ''rephrasing'').
                  log1 = log @ map (rephrase_call w text)
                                 (take n (get_enabled_services config ''rephrasing'')))"
    if run: "rephrase_with_first_enabled w log text (get_enabled_services config ''rephrasing'')
              = ((r, res), log1)" and fail: "\<not> success res"
    for r res log1
  proof -
    have "result_shape res"
      using first_enabled_shape
        [of w log "text" "get_enabled_services config ''rephrasing''"] run by simp
    with fail obtain reason where reason: "error res = Some reason"
      by (auto simp: result_shape_def)
    have flow: "rephrase_text w log text =
        (Inl (HTTPException 500 (''Rephrasing failed: '' @ reason)), log1)"
      using nonblank assms(2) run fail reason
      by (simp add: rephrase_text_def Let_def str_opt_def split: prod.split)
    from first_enabled_log [of "get_enabled_services config ''rephrasing''" w log "text"] run
    have "\<exists>n\<le>length (get_enabled_services config ''rephrasing'').
        log1 = log @ map (rephrase_call w text)
                       (take n (get_enabled_services config ''rephrasing''))"
      by simp
    with reason flow show ?thesis by blast
  qed
  have none: "rephrase_with_first_enabled w log text [] =
             ((JStr [],
               \<lparr>service_name = ''None'', service_type = ''rephrasing'', success = False,
                result = [], error = Some ''No rephrasing services enabled''\<rparr>), log)"
    by (simp add: rephrase_with_first_enabled_def)
  have none_flow: "get_enabled_services config ''rephrasing'' = [] \<longrightarrow>
              rephrase_text w log text =
                (Inl (HTTPException 500 ''Rephrasing failed: No rephrasing services enabled''),
                 log)"
    using nonblank assms(2)
    by (simp add: rephrase_text_def rephrase_with_first_enabled_def Let_def str_opt_def
        split: prod.split)
  from failed none none_flow show ?thesis by blast
qed

theorem rephrase_failure_aborts_flow_witness:
  "rephrase_text demo_world [] ''Hello world'' =
     (Inl (HTTPException 500 ''Rephrasing failed: No rephrasing services enabled''), [])
   \<and> rephrase_text timeout_rephrase_world [] ''Hello world'' =
     (Inl (HTTPException 500 ''Rephrasing failed: Request timed out''),
      [HttpPost ''a'' (JStr ''Hello world'') ''secret'' 30])
   \<and> take 3 (snd (rephrase_text working_rephrase_world [] ''Hello world'')) =
     [HttpPost ''b'' (JStr ''Hello world'') ''secret'' 30,
      HttpPost ''b'' (JStr ''Hi there'') ''secret'' 30,
      HttpPost ''c'' (JStr ''Hi there'') ''secret'' 30]"
proof -
  have nonblank: "strip ''Hello world'' \<noteq> []"
    by (simp add: strip_def py_isspace_def)
  have demo: "load_config demo_world = Inr demo_config"
    by (simp add: demo_world_def)
  have disabled: "get_enabled_services demo_config ''rephrasing'' = []"
    by (simp add: get_enabled_services_def demo_config_def svc_def)
  have first: "rephrase_text demo_world [] ''Hello world'' =
     (Inl (HTTPException 500 ''Rephrasing failed: No rephrasing services enabled''), [])"
    using rephrase_failure_aborts_flow [OF nonblank demo, of "[]"] disabled by blast
  let ?cfg = "demo_config\<lparr>services := Some [(''plagiarism_checkers'', [svc ''P'' ''b'']),
                                             (''ai_detectors'', [svc ''Q'' ''c'']),
                                             (''rephrasing'', [svc ''A'' ''a''])]\<rparr>"
  have timeout: "load_config timeout_rephrase_world = Inr ?cfg"
    by (simp add: timeout_rephrase_world_def demo_world_def)
  have enabled: "get_enabled_services ?cfg ''rephrasing'' = [svc ''A'' ''a'']"
    by (simp add: get_enabled_services_def svc_def)
  have run: "rephrase_with_first_enabled timeout_rephrase_world [] ''Hello world''
               (get_enabled_services ?cfg ''rephrasing'') =
      ((JStr [],
        \<lparr>service_name = ''A'', service_type = ''rephrasing'', success = False, result = [],
         error = Some ''Request timed out''\<rparr>),
       [HttpPost ''a'' (JStr ''Hello world'') ''secret'' 30])"
    by (simp add: enabled)
       (simp add: rephrase_with_first_enabled_def rephrase_text_with_service_def
        timeout_rephrase_world_def demo_world_def demo_http_def svc_def get_str_def Let_def)
  have second: "rephrase_text timeout_rephrase_world [] ''Hello world'' =
     (Inl (HTTPException 500 ''Rephrasing failed: Request timed out''),
      [HttpPost ''a'' (JStr ''Hello world'') ''secret'' 30])"
    using rephrase_failure_aborts_flow [OF nonblank timeout, of "[]"] run by auto
  have third: "take 3 (snd (rephrase_text working_rephrase_world [] ''Hello world'')) =
     [HttpPost ''b'' (JStr ''Hello world'') ''secret'' 30,
      HttpPost ''b'' (JStr ''Hi there'') ''secret'' 30,
      HttpPost ''c'' (JStr ''Hi there'') ''secret'' 30]"
    by (simp add: rephrase_text_def strip_def py_isspace_def working_rephrase_world_def
        demo_world_def demo_config_def get_enabled_services_def get_openai_config_def
        rephrase_with_first_enabled_def rephrase_text_with_service_def demo_http_def svc_def
        get_str_def dict_get_def py_not_def check_all_plagiarism_services_def
        plagiarism_step_def check_plagiarism_def plagiarism_call_def
        detect_all_ai_services_def detect_ai_def generate_summary_def
        prepare_results_context_def Let_def)
  from first second third show ?thesis by (intro conjI)
qed

text \<open>
  The claim as stated names an error string that the code does not produce: the message
  starts with a capital letter, and the flow puts \<^verbatim>\<open>Rephrasing failed: \<close> in front
  of it.
\<close>

theorem no_services_message_counterexample:
  "error (snd (fst (rephrase_with_first_enabled demo_world [] ''Hello world'' []))) \<noteq>
     Some ''no rephrasing services enabled''
   \<and> fst (rephrase_text demo_world [] ''Hello world'') \<noteq>
       Inl (HTTPException 500 ''no rephrasing services enabled'')"
  by (simp add: rephrase_with_first_enabled_def rephrase_text_def strip_def py_isspace_def
      demo_world_def demo_config_def get_enabled_services_def get_openai_config_def svc_def
      str_opt_def Let_def)

end
